theory Spec2Isabelle
  imports Main "HOL-Library.Sublist"
begin

section \<open>Strings\<close>

text \<open>
  Python strings are sequences of code points. A \<^typ>\<open>char\<close> stands for one code point,
  so the model covers the documents whose characters lie in Latin-1; \<open>length\<close> is
  Python's \<open>len\<close>.
\<close>

definition whitespace_chars :: "char list" where
  \<comment> \<open>the Latin-1 code points for which \<open>str.isspace\<close> holds (the class \<open>\s\<close> of \<open>re\<close>)\<close>
  "whitespace_chars =
     [CHR 0x09, CHR 0x0A, CHR 0x0B, CHR 0x0C, CHR 0x0D, CHR 0x1C, CHR 0x1D, CHR 0x1E,
      CHR 0x1F, CHR 0x20, CHR 0x85, CHR 0xA0]"

definition isspace :: "char \<Rightarrow> bool" where
  "isspace c = (c \<in> set whitespace_chars)"

definition lstrip :: "string \<Rightarrow> string" where
  "lstrip s = dropWhile isspace s"

definition rstrip :: "string \<Rightarrow> string" where
  "rstrip s = rev (dropWhile isspace (rev s))"

definition strip :: "string \<Rightarrow> string" where
  \<comment> \<open>\<open>s.strip()\<close>\<close>
  "strip s = rstrip (lstrip s)"

definition rstrip_char :: "char \<Rightarrow> string \<Rightarrow> string" where
  \<comment> \<open>\<open>s.rstrip(c)\<close> for a one-character argument: every trailing \<open>c\<close> goes\<close>
  "rstrip_char c s = rev (dropWhile (\<lambda>x. x = c) (rev s))"

fun contains :: "string \<Rightarrow> string \<Rightarrow> bool" where
  \<comment> \<open>\<open>sub in s\<close>\<close>
  "contains sub [] = (sub = [])"
| "contains sub (c # cs) = (prefix sub (c # cs) \<or> contains sub cs)"

definition startswith :: "string \<Rightarrow> string \<Rightarrow> bool" where
  \<comment> \<open>\<open>s.startswith(p)\<close>\<close>
  "startswith s p = prefix p s"

definition lower_char :: "char \<Rightarrow> char" where
  \<comment> \<open>\<open>str.lower\<close> on one Latin-1 code point: A-Z, and 0xC0-0xDE without the
      multiplication sign 0xD7\<close>
  "lower_char c =
     (let n = (of_char c :: nat)
      in if (65 \<le> n \<and> n \<le> 90) \<or> (192 \<le> n \<and> n \<le> 222 \<and> n \<noteq> 215)
         then char_of (n + 32) else c)"

definition lower :: "string \<Rightarrow> string" where
  "lower s = map lower_char s"

fun join :: "string \<Rightarrow> string list \<Rightarrow> string" where
  \<comment> \<open>\<open>sep.join(xs)\<close>\<close>
  "join sep [] = []"
| "join sep [x] = x"
| "join sep (x # y # ys) = x @ sep @ join sep (y # ys)"

fun tokens_from :: "string \<Rightarrow> string \<Rightarrow> string list" where
  \<comment> \<open>the maximal runs of non-whitespace; the first argument is the run being read,
      reversed\<close>
  "tokens_from acc [] = (if acc = [] then [] else [rev acc])"
| "tokens_from acc (c # cs) =
     (if isspace c then (if acc = [] then tokens_from [] cs else rev acc # tokens_from [] cs)
      else tokens_from (c # acc) cs)"

definition tokens :: "string \<Rightarrow> string list" where
  "tokens s = tokens_from [] s"

section \<open>Parsed documents\<close>

text \<open>
  What \<open>BeautifulSoup(content, 'html.parser')\<close> returns: a tree of text nodes and
  elements; an element has a tag name, its attributes (a dictionary, kept as an
  association list with each name once) and its children in document order. The root is
  the element named \<open>[document]\<close>, without attributes.
\<close>

type_synonym attrs = "(string \<times> string) list"

datatype node = Text string | Elem string attrs "node list"

definition soup_of :: "node list \<Rightarrow> node" where
  "soup_of cs = Elem ''[document]'' [] cs"

fun descendants :: "node \<Rightarrow> node list" where
  \<comment> \<open>\<open>tag.descendants\<close>: every node below the tag, in document order\<close>
  "descendants (Text s) = []"
| "descendants (Elem t a cs) = concat (map (\<lambda>c. c # descendants c) cs)"

fun with_parent :: "node \<Rightarrow> (node \<times> node) list" where
  \<comment> \<open>the descendants, each paired with its \<open>.parent\<close>\<close>
  "with_parent (Text s) = []"
| "with_parent (Elem t a cs) = concat (map (\<lambda>c. (c, Elem t a cs) # with_parent c) cs)"

fun strings :: "node \<Rightarrow> string list" where
  \<comment> \<open>the text nodes below a node, in document order\<close>
  "strings (Text s) = [s]"
| "strings (Elem t a cs) = concat (map strings cs)"

definition get_text :: "node \<Rightarrow> string" where
  \<comment> \<open>\<open>tag.get_text()\<close>\<close>
  "get_text n = concat (strings n)"

definition get_text_strip :: "node \<Rightarrow> string" where
  \<comment> \<open>\<open>tag.get_text(strip=True)\<close>: each string is stripped, the empty ones are dropped,
      the rest is joined without a separator\<close>
  "get_text_strip n = concat (filter (\<lambda>s. s \<noteq> []) (map strip (strings n)))"

fun tag_name :: "node \<Rightarrow> string option" where
  "tag_name (Text s) = None"
| "tag_name (Elem t a cs) = Some t"

fun attrs_of :: "node \<Rightarrow> attrs" where
  "attrs_of (Text s) = []"
| "attrs_of (Elem t a cs) = a"


definition attr :: "node \<Rightarrow> string \<Rightarrow> string option" where
  \<comment> \<open>\<open>tag.get(name)\<close>\<close>
  "attr n k = map_of (attrs_of n) k"

definition attr_or :: "node \<Rightarrow> string \<Rightarrow> string \<Rightarrow> string" where
  \<comment> \<open>\<open>tag.get(name, default)\<close>\<close>
  "attr_or n k d = (case attr n k of None \<Rightarrow> d | Some v \<Rightarrow> v)"

definition classes :: "node \<Rightarrow> string list" where
  \<comment> \<open>\<open>tag.get('class', [])\<close>: the parser splits the attribute at whitespace\<close>
  "classes n = (case attr n ''class'' of None \<Rightarrow> [] | Some v \<Rightarrow> tokens v)"

definition is_tag :: "string \<Rightarrow> node \<Rightarrow> bool" where
  "is_tag t n = (tag_name n = Some t)"

definition has_class :: "string \<Rightarrow> node \<Rightarrow> bool" where
  "has_class c n = (c \<in> set (classes n))"

definition has_attr :: "string \<Rightarrow> string \<Rightarrow> node \<Rightarrow> bool" where
  "has_attr k v n = (attr n k = Some v)"

definition find_all :: "(node \<Rightarrow> bool) \<Rightarrow> node \<Rightarrow> node list" where
  \<comment> \<open>\<open>tag.find_all(...)\<close>, the search criteria as a predicate\<close>
  "find_all P n = filter P (descendants n)"

definition find_first :: "(node \<Rightarrow> bool) \<Rightarrow> node \<Rightarrow> node option" where
  \<comment> \<open>\<open>tag.find(...)\<close>\<close>
  "find_first P n = List.find P (descendants n)"

section \<open>The regulations scraper\<close>

subsection \<open>Subscripts and superscripts\<close>

fun rewrite_runs :: "string \<Rightarrow> string \<Rightarrow> node \<Rightarrow> node" where
  \<comment> \<open>One loop of \<open>convert_subscripts_to_text\<close>, seen from a node below the element.
      \<open>find_all\<close> lists the runs before the first replacement; \<open>replace_with\<close> puts a
      text node in the place of an outermost run, and the runs inside it are then
      replaced in a subtree that has left the document.\<close>
  "rewrite_runs tg mark (Text s) = Text s"
| "rewrite_runs tg mark (Elem t a cs) =
     (if t = tg then Text (mark @ get_text (Elem t a cs))
      else Elem t a (map (rewrite_runs tg mark) cs))"

fun replace_runs :: "string \<Rightarrow> string \<Rightarrow> node \<Rightarrow> node" where
  \<comment> \<open>the loop at the element it is called on: \<open>find_all\<close> looks below the element\<close>
  "replace_runs tg mark (Text s) = Text s"
| "replace_runs tg mark (Elem t a cs) = Elem t a (map (rewrite_runs tg mark) cs)"

definition convert_subscripts_to_text :: "node \<Rightarrow> node" where
  "convert_subscripts_to_text element =
     replace_runs ''sup'' ''^'' (replace_runs ''sub'' ''_'' element)"

subsection \<open>The world outside\<close>

text \<open>
  The network, the disk and the functions of \<open>urllib\<close> are parameters of the model.
  A request is answered the same way each time it is made during a run, and the library
  functions return on the strings the pages hold.
\<close>

datatype error = FetchError string | PersistenceError string

record world =
  http_get :: "string \<Rightarrow> error + node"
    \<comment> \<open>GET, \<open>raise_for_status\<close> and the parse of the body\<close>
  urljoin :: "string \<Rightarrow> string \<Rightarrow> string"
  url_path :: "string \<Rightarrow> string"
    \<comment> \<open>\<open>urlparse(u).path\<close>\<close>
  query_param :: "string \<Rightarrow> string \<Rightarrow> string"
    \<comment> \<open>\<open>parse_qs(urlparse(href).query).get(k, [''])[0]\<close>\<close>
  save_image :: "string \<Rightarrow> string \<Rightarrow> bool"
    \<comment> \<open>the image at the URL was fetched and written under the local name\<close>
  write_file :: "string \<Rightarrow> string \<Rightarrow> bool"
    \<comment> \<open>the text file of that name was written with that content\<close>

definition base_url :: string where
  "base_url = ''https://shared-govt.westlaw.com''"

definition get_page_content :: "world \<Rightarrow> string \<Rightarrow> node option" where
  \<comment> \<open>every exception is caught and becomes \<open>None\<close>\<close>
  "get_page_content w url = (case http_get w url of Inl e \<Rightarrow> None | Inr soup \<Rightarrow> Some soup)"

subsection \<open>Listing pages\<close>

type_synonym link = "string \<times> string"
  \<comment> \<open>title and url\<close>

definition list_links :: "world \<Rightarrow> node \<Rightarrow> link list" where
  \<comment> \<open>the loop over the \<open>li\<close> of a list, the same in both listing functions\<close>
  "list_links w ul =
     List.map_filter
       (\<lambda>li. case find_first (is_tag ''a'') li of
               None \<Rightarrow> None
             | Some lnk \<Rightarrow>
                 (case attr lnk ''href'' of
                    None \<Rightarrow> None
                  | Some href \<Rightarrow>
                      if href = [] then None
                      else Some (get_text_strip lnk, urljoin w base_url href)))
       (find_all (is_tag ''li'') ul)"


definition extract_sections_from_article :: "world \<Rightarrow> string \<Rightarrow> link list" where
  "extract_sections_from_article w article_url =
     (case get_page_content w article_url of
        None \<Rightarrow> []
      | Some soup \<Rightarrow>
          (case find_first (\<lambda>n. is_tag ''ul'' n \<and> has_class ''co_genericWhiteBox'' n) soup of
             None \<Rightarrow> []
           | Some section_list \<Rightarrow> list_links w section_list))"

subsection \<open>Formula images\<close>

fun sub_whitespace :: "bool \<Rightarrow> string \<Rightarrow> string" where
  \<comment> \<open>\<open>re.sub(r'\s+', '_', s)\<close>; the flag says that the run of whitespace being read has
      its underscore already\<close>
  "sub_whitespace inrun [] = []"
| "sub_whitespace inrun (c # cs) =
     (if isspace c then (if inrun then sub_whitespace True cs
                         else CHR ''_'' # sub_whitespace True cs)
      else c # sub_whitespace False cs)"

definition image_title_chars :: "char list" where
  \<comment> \<open>the class \<open>[<>:"/\|?*\<section>.]\<close> of \<open>download_image\<close>; the section sign is the
      code point 0xA7\<close>
  "image_title_chars =
     [CHR ''<'', CHR ''>'', CHR '':'', CHR 0x22, CHR ''/'', CHR 0x5C, CHR ''|'', CHR ''?'',
      CHR ''*'', CHR 0xA7, CHR ''.'']"

definition last_segment :: "string \<Rightarrow> string" where
  \<comment> \<open>\<open>path.split('/')[-1]\<close>\<close>
  "last_segment p = rev (takeWhile (\<lambda>c. c \<noteq> CHR ''/'') (rev p))"

definition download_image :: "world \<Rightarrow> string \<Rightarrow> string \<Rightarrow> string option" where
  "download_image w img_url section_title =
     (let clean_title =
            sub_whitespace False
              (map (\<lambda>c. if c \<in> set image_title_chars then CHR ''_'' else c) section_title);
          img_name = last_segment (url_path w img_url);
          img_name = (if img_name = [] \<or> CHR ''.'' \<notin> set img_name then ''formula.png''
                      else img_name);
          local_filename = clean_title @ ''_'' @ img_name
      in if save_image w img_url local_filename then Some local_filename else None)"

record image_info =
  original_url :: string
  local_file :: string
  alt_text :: string
  description :: string

definition resolve_src :: "world \<Rightarrow> string \<Rightarrow> string" where
  "resolve_src w img_src =
     (if startswith img_src ''/'' then urljoin w ''https://govt.westlaw.com'' img_src
      else if startswith img_src ''http'' then img_src
      else urljoin w base_url img_src)"

definition is_formula_image :: "node \<Rightarrow> node \<Rightarrow> bool" where
  \<comment> \<open>the test of \<open>process_mathematical_images\<close> on an image and its parent\<close>
  "is_formula_image img parent =
     (let img_alt = lower (attr_or img ''alt'' '''');
          parent_class = classes parent
      in list_ex (\<lambda>cls. contains ''figure'' cls) parent_class
         \<or> contains ''formula'' img_alt \<or> contains ''equation'' img_alt
         \<or> list_ex (\<lambda>word. contains word img_alt) [''sum'', ''equals'', ''water loss''])"

definition has_src :: "node \<Rightarrow> bool" where
  \<comment> \<open>\<open>img.get('src')\<close> is there and not empty\<close>
  "has_src img = (case attr img ''src'' of None \<Rightarrow> False | Some s \<Rightarrow> s \<noteq> [])"

definition placeholder :: "string \<Rightarrow> node \<Rightarrow> string" where
  "placeholder local_filename img =
     ''\<newline>[IMAGE: '' @ local_filename @ '' - ''
       @ attr_or img ''alt'' ''Mathematical formula'' @ '']\<newline>''"

datatype outcome = Untouched | Download_failed | Replaced image_info string
  \<comment> \<open>what the loop of \<open>process_mathematical_images\<close> does with a node: nothing; a call
      of \<open>download_image\<close> that returns \<open>None\<close>; or a download, with the record
      appended and the text that replaces the image\<close>

definition process_image :: "world \<Rightarrow> string \<Rightarrow> node \<Rightarrow> node \<Rightarrow> outcome" where
  \<comment> \<open>the body of the loop for an image and its parent (a node that is not an image is
      not in the loop)\<close>
  "process_image w section_title img parent =
     (if is_tag ''img'' img \<and> has_src img then
        (let img_url = resolve_src w (attr_or img ''src'' '''')
         in if is_formula_image img parent then
              (case download_image w img_url section_title of
                 None \<Rightarrow> Download_failed
               | Some local_filename \<Rightarrow>
                   Replaced \<lparr>original_url = img_url, local_file = local_filename,
                              alt_text = attr_or img ''alt'' '''',
                              description = ''Mathematical formula from '' @ section_title\<rparr>
                            (placeholder local_filename img))
            else Untouched)
      else Untouched)"

definition record_of :: "outcome \<Rightarrow> image_info option" where
  "record_of oc = (case oc of Replaced r ph \<Rightarrow> Some r | _ \<Rightarrow> None)"

definition images_downloaded_of :: "world \<Rightarrow> node \<Rightarrow> string \<Rightarrow> image_info list" where
  \<comment> \<open>the list \<open>process_mathematical_images\<close> returns. \<open>find_all('img')\<close> lists the images
      before the first replacement, and an image keeps its parent and its attributes.\<close>
  "images_downloaded_of w soup section_title =
     List.map_filter (\<lambda>(img, parent). record_of (process_image w section_title img parent))
       (with_parent soup)"

fun subst_images :: "world \<Rightarrow> string \<Rightarrow> node \<Rightarrow> node \<Rightarrow> node" where
  \<comment> \<open>the document after the loop, below a parent: a replaced image is a text node\<close>
  "subst_images w section_title parent (Text s) = Text s"
| "subst_images w section_title parent (Elem t a cs) =
     (case process_image w section_title (Elem t a cs) parent of
        Replaced r ph \<Rightarrow> Text ph
      | _ \<Rightarrow> Elem t a (map (\<lambda>c. subst_images w section_title (Elem t a cs) c) cs))"

definition soup_after_images :: "world \<Rightarrow> node \<Rightarrow> string \<Rightarrow> node" where
  "soup_after_images w soup section_title =
     (case soup of
        Text s \<Rightarrow> soup
      | Elem t a cs \<Rightarrow> Elem t a (map (\<lambda>c. subst_images w section_title soup c) cs))"

definition process_mathematical_images :: "world \<Rightarrow> node \<Rightarrow> string \<Rightarrow> image_info list \<times> node" where
  \<comment> \<open>the list returned and the document as the loop leaves it\<close>
  "process_mathematical_images w soup section_title =
     (images_downloaded_of w soup section_title, soup_after_images w soup section_title)"

subsection \<open>Section content\<close>

definition is_content_block :: "node \<Rightarrow> bool" where
  \<comment> \<open>the criteria of \<open>find_all('div', class_='co_contentBlock')\<close>\<close>
  "is_content_block n = (is_tag ''div'' n \<and> has_class ''co_contentBlock'' n)"

definition is_skipped_block :: "node \<Rightarrow> bool" where
  "is_skipped_block block =
     list_ex (\<lambda>cls. cls \<in> set (classes block)) [''co_documentHead'', ''co_printHeading'']"

definition starts_with_subsection_id :: "string \<Rightarrow> bool" where
  \<comment> \<open>\<open>re.match(r'^\([a-z]\)', s)\<close>\<close>
  "starts_with_subsection_id s =
     (case s of
        a # b # c # rest \<Rightarrow>
          a = CHR ''('' \<and> (97 \<le> (of_char b :: nat) \<and> (of_char b :: nat) \<le> 122) \<and> c = CHR '')''
      | _ \<Rightarrow> False)"

definition process_section_block :: "node \<Rightarrow> string list \<Rightarrow> string list" where
  "process_section_block block content_lines =
     (let paragraphs = find_all (\<lambda>n. is_tag ''div'' n \<and> has_class ''co_paragraph'' n) block
      in foldl (\<lambda>ls para.
                  (let para_text = get_text_strip para
                   in if para_text \<noteq> [] then
                        (if starts_with_subsection_id para_text then ls @ ['''', para_text]
                         else ls @ [para_text])
                      else ls))
               content_lines paragraphs
         @ [''''])"

definition process_subsection_block :: "node \<Rightarrow> string list \<Rightarrow> string list" where
  "process_subsection_block block content_lines =
     (let text = get_text_strip block
      in if text \<noteq> [] then content_lines @ [text, ''''] else content_lines)"

definition process_paragraph_block :: "node \<Rightarrow> string list \<Rightarrow> string list" where
  "process_paragraph_block block content_lines =
     (let text = get_text_strip block
      in if text \<noteq> [] then content_lines @ [text] else content_lines)"

definition process_block :: "node \<Rightarrow> string list \<Rightarrow> string list" where
  \<comment> \<open>the body of the loop over the content blocks, for the block as it is in the list\<close>
  "process_block block0 content_lines =
     (if is_skipped_block block0 then content_lines
      else
        (let block = convert_subscripts_to_text block0
         in if ''co_section'' \<in> set (classes block) then process_section_block block content_lines
            else if ''co_subsection'' \<in> set (classes block)
              then process_subsection_block block content_lines
            else if ''co_paragraph'' \<in> set (classes block)
              then process_paragraph_block block content_lines
            else
              (let text = get_text_strip block
               in if text \<noteq> [] \<and> \<not> (startswith text ''Note:'' \<or> startswith text ''History:''
                                     \<or> startswith text ''Credits'')
                  then content_lines @ [text, '''']
                  else content_lines)))"

definition heading_lines :: "node \<Rightarrow> string list" where
  \<comment> \<open>the title and citation lines with which \<open>content_lines\<close> starts\<close>
  "heading_lines soup =
     (case find_first (\<lambda>n. is_tag ''div'' n \<and> has_attr ''id'' ''co_docHeaderTitle'' n) soup of
        None \<Rightarrow> []
      | Some title_section \<Rightarrow>
          (case find_first (is_tag ''h1'') title_section of
             None \<Rightarrow> []
           | Some title_h1 \<Rightarrow>
               (let title_text = get_text_strip title_h1
                in [title_text, replicate (length title_text) CHR ''='', '''']))
          @ (case find_first (\<lambda>n. is_tag ''ul'' n \<and> has_attr ''id'' ''co_docHeaderCitation'' n)
                    title_section of
               None \<Rightarrow> []
             | Some citation_ul \<Rightarrow>
                 filter (\<lambda>citation_text. citation_text \<noteq> [])
                   (map get_text_strip (find_all (is_tag ''li'') citation_ul))
                 @ ['''']))"

definition is_co_document :: "node \<Rightarrow> bool" where
  "is_co_document n = (is_tag ''div'' n \<and> has_attr ''id'' ''co_document'' n)"

definition content_of :: "node \<Rightarrow> string" where
  \<comment> \<open>\<open>extract_section_content\<close> from the search for \<open>co_document\<close> on, on the document the
      image loop has left. A block in the list is an object of the document: when its turn
      comes, the loops of an enclosing block have already rewritten its runs (or, where
      the block left the document inside a replaced run, its subscripts), and its own
      conversion leaves it as the conversion of the block as parsed does.\<close>
  "content_of soup =
     (case find_first is_co_document soup of
        None \<Rightarrow> ''''
      | Some doc_content \<Rightarrow>
          join ''\<newline>''
            (foldl (\<lambda>content_lines block. process_block block content_lines)
               (heading_lines soup) (find_all is_content_block doc_content)))"

definition extract_section_content :: "world \<Rightarrow> string \<Rightarrow> string \<Rightarrow> string \<times> image_info list" where
  "extract_section_content w section_url section_title =
     (case get_page_content w section_url of
        None \<Rightarrow> ('''', [])
      | Some soup \<Rightarrow>
          (let (images, soup1) = process_mathematical_images w soup section_title
           in (content_of soup1, images)))"

subsection \<open>The document after normalization\<close>





subsection \<open>The run over a chapter\<close>

function str_nat :: "nat \<Rightarrow> string" where
  \<comment> \<open>\<open>str(n)\<close>, as an f-string prints a counter\<close>
  "str_nat n =
     (if n < 10 then [''0123456789'' ! n]
      else str_nat (n div 10) @ [''0123456789'' ! (n mod 10)])"
  by pat_completeness auto
termination
  by (relation "measure id") auto

declare str_nat.simps [simp del]

definition safe_filename_chars :: "char list" where
  \<comment> \<open>the class \<open>[\<section><>:"/\|?*]\<close> of \<open>create_safe_filename\<close>\<close>
  "safe_filename_chars =
     [CHR 0xA7, CHR ''<'', CHR ''>'', CHR '':'', CHR 0x22, CHR ''/'', CHR 0x5C, CHR ''|'',
      CHR ''?'', CHR ''*'']"

definition create_safe_filename :: "string \<Rightarrow> string" where
  "create_safe_filename title =
     (let clean_title = filter (\<lambda>c. c \<notin> set safe_filename_chars) title;
          clean_title = sub_whitespace False (strip clean_title)
      in if length clean_title > 100 then take 100 clean_title else clean_title)"

record section_entry =
  se_title :: string
  se_url :: string
  se_filename :: string
  se_images :: "string list"

record article_entry =
  ae_title :: string
  ae_url :: string
  ae_sections :: "section_entry list"

record scraping_log =
  lg_chapter_title :: string
  lg_chapter_url :: string
  articles :: "article_entry list"
  total_sections :: nat
  images_downloaded :: nat

record run_state =
  all_images :: "image_info list"
  log :: scraping_log
  files :: "(string \<times> string) list"
    \<comment> \<open>the section files written, name and content, in the order of writing\<close>

fun for_each :: "('a \<Rightarrow> 's \<Rightarrow> error + 's) \<Rightarrow> 'a list \<Rightarrow> 's \<Rightarrow> error + 's" where
  \<comment> \<open>a \<open>for\<close> loop whose body may raise: the exception ends the loop\<close>
  "for_each body [] st = Inr st"
| "for_each body (x # xs) st =
     (case body x st of Inl e \<Rightarrow> Inl e | Inr st' \<Rightarrow> for_each body xs st')"


definition section_file_text :: "nat \<Rightarrow> link \<Rightarrow> link \<Rightarrow> string \<Rightarrow> string" where
  "section_file_text i article section content =
     ''CALIFORNIA CODE OF REGULATIONS\<newline>''
     @ ''Title 23. Waters\<newline>''
     @ ''Division 3. State Water Resources Control Board and Regional Water Quality Control Boards\<newline>''
     @ ''Chapter 3.5. Urban Water Use Efficiency and Conservation\<newline>''
     @ ''Article '' @ str_nat i @ '': '' @ fst article @ ''\<newline>''
     @ ''URL: '' @ snd section @ ''\<newline>''
     @ replicate 80 CHR ''='' @ ''\<newline>\<newline>''
     @ content"

definition process_section ::
  "world \<Rightarrow> nat \<Rightarrow> link \<Rightarrow> nat \<times> link \<Rightarrow> run_state \<times> article_entry
     \<Rightarrow> error + run_state \<times> article_entry" where
  \<comment> \<open>the body of the loop over the sections of article \<open>i\<close>; an exception of the file
      write is not caught\<close>
  "process_section w i article js st_info =
     (case js of (j, section) \<Rightarrow>
      case st_info of (st, article_info) \<Rightarrow>
        (let (content, images) = extract_section_content w (snd section) (fst section)
         in if content \<noteq> [] then
              (let filename = ''article_'' @ str_nat i @ ''_section_'' @ str_nat j @ ''_''
                               @ create_safe_filename (fst section) @ ''.txt''
               in if write_file w filename (section_file_text i article section content) then
                    Inr (st\<lparr>all_images := all_images st @ images,
                            log := (log st)\<lparr>total_sections := total_sections (log st) + 1\<rparr>,
                            files := files st
                                     @ [(filename, section_file_text i article section content)]\<rparr>,
                         article_info\<lparr>ae_sections := ae_sections article_info
                            @ [\<lparr>se_title = fst section, se_url = snd section,
                                 se_filename = filename,
                                 se_images = map local_file images\<rparr>]\<rparr>)
                  else Inl (PersistenceError filename))
            else Inr (st, article_info)))"




section \<open>The legal code scraper\<close>

definition BASE_URL :: string where
  "BASE_URL = ''https://leginfo.legislature.ca.gov''"

definition OUTPUT_BASE_DIR :: string where
  "OUTPUT_BASE_DIR = ''california_legal_codes''"

definition upper :: "string \<Rightarrow> string" where
  \<comment> \<open>\<open>str.upper\<close> on Latin-1: a-z, 0xE0-0xFE without the division sign 0xF7, and the
      sharp s, which becomes SS. The micro sign and the y with diaeresis, whose capitals
      are outside Latin-1, stay as they are.\<close>
  "upper s =
     concat (map (\<lambda>c. let n = (of_char c :: nat)
                       in if (97 \<le> n \<and> n \<le> 122) \<or> (224 \<le> n \<and> n \<le> 254 \<and> n \<noteq> 247)
                          then [char_of (n - 32)]
                          else if n = 223 then ''SS'' else [c]) s)"

subsection \<open>Listing pages\<close>

definition style_has :: "string \<Rightarrow> node \<Rightarrow> bool" where
  \<comment> \<open>the criteria of \<open>find('div', style=lambda x: x and s in x)\<close>\<close>
  "style_has s n =
     (is_tag ''div'' n \<and>
      (case attr n ''style'' of None \<Rightarrow> False | Some x \<Rightarrow> x \<noteq> [] \<and> contains s x))"

definition anchors :: "node \<Rightarrow> node list" where
  \<comment> \<open>\<open>content_div.find_all('a', href=True)\<close>\<close>
  "anchors content_div = find_all (\<lambda>n. is_tag ''a'' n \<and> attr n ''href'' \<noteq> None) content_div"

definition range_text_of :: "node \<Rightarrow> string" where
  "range_text_of anchor =
     (case find_first (style_has ''float:right'') anchor of
        None \<Rightarrow> '''' | Some range_div \<Rightarrow> get_text_strip range_div)"

definition is_expanded_branch :: "node \<Rightarrow> bool" where
  "is_expanded_branch n = (is_tag ''div'' n \<and> has_attr ''id'' ''expandedbranchcodesid'' n)"

record article_rec =
  a_url :: string
  a_title :: string
  a_code :: string
  a_division :: string
  a_part :: string
  a_chapter :: string
  a_article :: string
  a_range :: string

record chapter_rec =
  c_url :: string
  c_title :: string
  c_code :: string
  c_division :: string
  c_part :: string
  c_chapter :: string
  c_has_articles :: bool
  c_range :: string
  c_articles :: "article_rec list"

record part_rec =
  p_url :: string
  p_title :: string
  p_part :: string
  p_code :: string
  p_division :: string
  p_has_chapters :: bool
  p_range :: string
  p_chapters :: "chapter_rec list"

definition part_of_anchor ::
  "world \<Rightarrow> string \<Rightarrow> string \<Rightarrow> string list option \<Rightarrow> node \<Rightarrow> part_rec option" where
  \<comment> \<open>the body of the loop of \<open>get_division_structure\<close>; \<open>None\<close> is \<open>continue\<close>\<close>
  "part_of_anchor w code division specific_parts anchor =
     (let href = attr_or anchor ''href'' ''''
      in case find_first (style_has ''margin-left:20px'') anchor of
           None \<Rightarrow> None
         | Some part_div \<Rightarrow>
             (let link_text = get_text_strip part_div
              in if \<not> contains ''PART'' (upper link_text) then None
                 else if contains ''(Reserved)'' link_text then None
                 else
                   (let part = query_param w href ''part''
                    in if part = [] then None
                       else if (case specific_parts of
                                  None \<Rightarrow> False
                                | Some ps \<Rightarrow> ps \<noteq> [] \<and> rstrip_char CHR ''.'' part \<notin> set ps)
                         then None
                       else Some \<lparr>p_url = urljoin w BASE_URL href, p_title = link_text,
                                   p_part = part, p_code = code, p_division = division,
                                   p_has_chapters = contains ''displayexpandedbranch'' href,
                                   p_range = range_text_of anchor, p_chapters = []\<rparr>)))"

definition get_division_structure ::
  "world \<Rightarrow> string \<Rightarrow> string \<Rightarrow> string list option \<Rightarrow> error + part_rec list" where
  "get_division_structure w code division specific_parts =
     (let url = BASE_URL @ ''/faces/codes_displayexpandedbranch.xhtml?tocCode='' @ code
                 @ ''&division='' @ division @ ''.&title=&part=&chapter=&article=''
      in case http_get w url of
           Inl e \<Rightarrow> Inl e
         | Inr soup \<Rightarrow>
             (case find_first is_expanded_branch soup of
                None \<Rightarrow> Inr []
              | Some content_div \<Rightarrow>
                  Inr (List.map_filter (part_of_anchor w code division specific_parts)
                         (anchors content_div))))"

definition chapter_of_anchor :: "world \<Rightarrow> string \<Rightarrow> string \<Rightarrow> node \<Rightarrow> chapter_rec option" where
  \<comment> \<open>the body of the loop of \<open>get_chapters_for_part\<close>\<close>
  "chapter_of_anchor w code division anchor =
     (let href = attr_or anchor ''href'' ''''
      in case find_first (style_has ''margin-left:30px'') anchor of
           None \<Rightarrow> None
         | Some chapter_div \<Rightarrow>
             (let link_text = get_text_strip chapter_div
              in if contains ''(Reserved)'' link_text then None
                 else if \<not> contains ''CHAPTER'' (upper link_text) then None
                 else
                   (let chapter_num = query_param w href ''chapter''
                    in if chapter_num = [] then None
                       else if contains ''codes_displayexpandedbranch.xhtml'' href then
                         Some \<lparr>c_url = urljoin w BASE_URL href, c_title = link_text,
                                c_code = code, c_division = division,
                                c_part = query_param w href ''part'', c_chapter = chapter_num,
                                c_has_articles = True, c_range = range_text_of anchor,
                                c_articles = []\<rparr>
                       else if contains ''codes_displayText.xhtml'' href then
                         Some \<lparr>c_url = urljoin w BASE_URL href, c_title = link_text,
                                c_code = code, c_division = division,
                                c_part = query_param w href ''part'', c_chapter = chapter_num,
                                c_has_articles = False, c_range = range_text_of anchor,
                                c_articles = []\<rparr>
                       else None)))"

definition get_chapters_for_part ::
  "world \<Rightarrow> string \<Rightarrow> string \<Rightarrow> string \<Rightarrow> string \<Rightarrow> error + chapter_rec list" where
  "get_chapters_for_part w part_url code division part =
     (case http_get w part_url of
        Inl e \<Rightarrow> Inl e
      | Inr soup \<Rightarrow>
          (case find_first is_expanded_branch soup of
             None \<Rightarrow> Inr []
           | Some content_div \<Rightarrow>
               Inr (List.map_filter (chapter_of_anchor w code division) (anchors content_div))))"

definition article_of_anchor :: "world \<Rightarrow> string \<Rightarrow> string \<Rightarrow> node \<Rightarrow> article_rec option" where
  \<comment> \<open>the body of the loop of \<open>get_articles_for_chapter\<close>\<close>
  "article_of_anchor w code division anchor =
     (let href = attr_or anchor ''href'' ''''
      in case find_first (style_has ''margin-left:40px'') anchor of
           None \<Rightarrow> None
         | Some article_div \<Rightarrow>
             (let link_text = get_text_strip article_div
              in if contains ''codes_displayText.xhtml'' href
                    \<and> contains ''ARTICLE'' (upper link_text)
                 then Some \<lparr>a_url = urljoin w BASE_URL href, a_title = link_text,
                             a_code = code, a_division = division,
                             a_part = query_param w href ''part'',
                             a_chapter = query_param w href ''chapter'',
                             a_article = query_param w href ''article'',
                             a_range = range_text_of anchor\<rparr>
                 else None))"

definition get_articles_for_chapter ::
  "world \<Rightarrow> string \<Rightarrow> string \<Rightarrow> string \<Rightarrow> string \<Rightarrow> string \<Rightarrow> error + article_rec list" where
  "get_articles_for_chapter w chapter_url code division part chapter =
     (case http_get w chapter_url of
        Inl e \<Rightarrow> Inl e
      | Inr soup \<Rightarrow>
          (case find_first is_expanded_branch soup of
             None \<Rightarrow> Inr []
           | Some content_div \<Rightarrow>
               Inr (List.map_filter (article_of_anchor w code division) (anchors content_div))))"

subsection \<open>The text of a page\<close>

fun with_context :: "node \<Rightarrow> (node \<times> string \<times> node list) list"
  and with_context_list :: "string \<Rightarrow> node list \<Rightarrow> (node \<times> string \<times> node list) list"
where
  \<comment> \<open>the descendants in document order, each with the name of its parent and the
      siblings that follow it\<close>
  "with_context (Text s) = []"
| "with_context (Elem t a cs) = with_context_list t cs"
| "with_context_list p [] = []"
| "with_context_list p (c # cs) = (c, p, cs) # with_context c @ with_context_list p cs"

fun next_element :: "node list \<Rightarrow> node option" where
  \<comment> \<open>the loop \<open>while next_elem and isinstance(next_elem, str)\<close> over the following
      siblings: an empty string is false and ends the search without an element\<close>
  "next_element [] = None"
| "next_element (Text s # ns) = (if s = [] then None else next_element ns)"
| "next_element (Elem t a cs # ns) = Some (Elem t a cs)"

definition is_header :: "node \<Rightarrow> bool" where
  \<comment> \<open>the criteria of \<open>find_all(['h3', 'h4', 'h5'])\<close>\<close>
  "is_header n = (is_tag ''h3'' n \<or> is_tag ''h4'' n \<or> is_tag ''h5'' n)"

definition header_lines :: "node \<times> string \<times> node list \<Rightarrow> string list" where
  \<comment> \<open>the body of the loop over the headers\<close>
  "header_lines hc =
     (case hc of (header, parent_name, following) \<Rightarrow>
        (let header_text = get_text_strip header
         in if header_text \<noteq> [] then
              [header_text]
              @ (case next_element following of
                   None \<Rightarrow> []
                 | Some next_elem \<Rightarrow>
                     if is_tag ''i'' next_elem \<or> (is_tag ''text'' next_elem \<and> parent_name = ''i'')
                     then (let citation_text = get_text_strip next_elem
                           in if citation_text \<noteq> [] then [''  '' @ citation_text] else [])
                     else [])
              @ ['''']
            else []))"

definition is_digit :: "char \<Rightarrow> bool" where
  \<comment> \<open>\<open>\d\<close> on Latin-1\<close>
  "is_digit c = (c \<in> set ''0123456789'')"

fun section_number_rest :: "string \<Rightarrow> bool" where
  \<comment> \<open>\<open>re.match(r'^\d+(?:\.\d+)*$', s)\<close> after a digit: more digits, a dot with a digit,
      or \<open>$\<close>, which holds at the end and before a newline that ends the string\<close>
  "section_number_rest [] = True"
| "section_number_rest (c # cs) =
     (if is_digit c then section_number_rest cs
      else if c = CHR ''.'' then
        (case cs of [] \<Rightarrow> False | d # ds \<Rightarrow> is_digit d \<and> section_number_rest ds)
      else c = CHR 0x0A \<and> cs = [])"

definition is_section_number :: "string \<Rightarrow> bool" where
  "is_section_number s =
     (case s of [] \<Rightarrow> False | d # ds \<Rightarrow> is_digit d \<and> section_number_rest ds)"

fun match_number_prefix :: "string \<Rightarrow> string \<Rightarrow> string option" where
  \<comment> \<open>a section number read as a pattern, at the start of a text: a dot of the number
      stands for any character but the newline, every other character for itself; the
      result is the text after the match\<close>
  "match_number_prefix [] text = Some text"
| "match_number_prefix (p # ps) [] = None"
| "match_number_prefix (p # ps) (c # cs) =
     (if (if p = CHR ''.'' then c \<noteq> CHR 0x0A else c = p) then match_number_prefix ps cs
      else None)"

definition strip_section_number :: "string \<Rightarrow> string \<Rightarrow> string" where
  \<comment> \<open>\<open>re.sub(f'^{section_num}\.?\\s*', '', combined_text)\<close>\<close>
  "strip_section_number section_num combined_text =
     (case match_number_prefix section_num combined_text of
        None \<Rightarrow> combined_text
      | Some rest \<Rightarrow>
          dropWhile isspace (case rest of [] \<Rightarrow> [] | c # cs \<Rightarrow> if c = CHR ''.'' then cs else rest))"

definition paragraph_step :: "string list \<times> string option \<Rightarrow> node \<Rightarrow> string list \<times> string option" where
  \<comment> \<open>the body of the loop over the \<open>p\<close> of a section: \<open>section_texts\<close> and
      \<open>citation_text\<close>\<close>
  "paragraph_step acc p =
     (case acc of (section_texts, citation_text) \<Rightarrow>
        (let p_text = get_text_strip p
         in if p_text \<noteq> [] then
              (let style = attr_or p ''style'' ''''
               in if contains ''font-size:0.9em'' style \<or> find_first (is_tag ''i'') p \<noteq> None
                  then (section_texts, Some p_text)
                  else if contains ''display:inline'' style \<or> contains ''margin:0'' style
                  then (section_texts @ [p_text], citation_text)
                  else acc)
            else acc))"

definition section_lines :: "node \<Rightarrow> string list" where
  \<comment> \<open>the body of the loop over the section divs\<close>
  "section_lines d =
     (if find_first is_header d \<noteq> None then []
      else
        (case find_first (is_tag ''h6'') d of
           None \<Rightarrow> []
         | Some h6 \<Rightarrow>
             (case find_first (is_tag ''a'') h6 of
                None \<Rightarrow> []
              | Some section_link \<Rightarrow>
                  (let section_num = rstrip_char CHR ''.'' (get_text_strip section_link)
                   in if is_section_number section_num then
                        (case foldl paragraph_step ([], None) (find_all (is_tag ''p'') d) of
                           (section_texts, citation_text) \<Rightarrow>
                             [''\<newline>'' @ section_num @ ''.'']
                             @ (if section_texts \<noteq> []
                                then ['' '' @ strip_section_number section_num
                                              (join '' '' section_texts)]
                                else [])
                             @ (case citation_text of
                                  None \<Rightarrow> []
                                | Some c \<Rightarrow> [''\<newline>'' @ c]))
                      else []))))"

definition find_main_div :: "node \<Rightarrow> node option" where
  "find_main_div soup =
     (case find_first (\<lambda>n. is_tag ''div'' n \<and> has_attr ''id'' ''manylawsections'' n) soup of
        Some d \<Rightarrow> Some d
      | None \<Rightarrow>
          (case find_first (\<lambda>n. is_tag ''div'' n
                               \<and> has_attr ''id'' ''display_code_many_law_sections'' n) soup of
             Some d \<Rightarrow> Some d
           | None \<Rightarrow>
               find_first (\<lambda>n. is_tag ''div'' n \<and> has_class ''displaycodeleftmargin'' n) soup))"

definition parse_legal_code_html :: "node \<Rightarrow> string" where
  "parse_legal_code_html soup =
     (case find_main_div soup of
        None \<Rightarrow> ''''
      | Some main_div \<Rightarrow>
          join ''\<newline>''
            (concat (map header_lines (filter (\<lambda>hc. is_header (fst hc)) (with_context main_div)))
             @ concat (map section_lines
                         (find_all (\<lambda>n. is_tag ''div'' n \<and> has_attr ''align'' ''left'' n)
                            main_div))))"

definition scrape_content :: "world \<Rightarrow> string \<Rightarrow> error + string" where
  "scrape_content w url =
     (case http_get w url of Inl e \<Rightarrow> Inl e | Inr soup \<Rightarrow> Inr (parse_legal_code_html soup))"

subsection \<open>The run over a division\<close>

definition replace_char :: "char \<Rightarrow> char \<Rightarrow> string \<Rightarrow> string" where
  \<comment> \<open>\<open>s.replace(a, b)\<close> for one-character arguments\<close>
  "replace_char a b s = map (\<lambda>c. if c = a then b else c) s"

definition filename_chars :: "char list" where
  \<comment> \<open>the class \<open>[<>:"/\|?*]\<close> of \<open>create_filename\<close>\<close>
  "filename_chars =
     [CHR ''<'', CHR ''>'', CHR '':'', CHR 0x22, CHR ''/'', CHR 0x5C, CHR ''|'', CHR ''?'',
      CHR ''*'']"

definition create_filename ::
  "string \<Rightarrow> string \<Rightarrow> string \<Rightarrow> string \<Rightarrow> string \<Rightarrow> string \<Rightarrow> string" where
  \<comment> \<open>the keys of \<open>info\<close> as arguments; a key a record does not have is the empty string\<close>
  "create_filename code division part0 chapter0 article0 title =
     (let division = replace_char CHR ''.'' CHR ''_'' division;
          part = (if part0 \<noteq> [] then replace_char CHR ''.'' CHR ''_'' part0 else ''unknown'');
          chapter = replace_char CHR ''.'' CHR ''_'' chapter0;
          article = replace_char CHR ''.'' CHR ''_'' article0;
          title_clean = map (\<lambda>c. if c \<in> set filename_chars then CHR ''_'' else c) title;
          title_clean = sub_whitespace False title_clean;
          title_clean = take 50 title_clean
      in if article \<noteq> [] then
           code @ ''_div'' @ division @ ''_part'' @ part @ ''_ch'' @ chapter @ ''_art'' @ article
             @ ''_'' @ title_clean @ ''.txt''
         else if chapter \<noteq> [] then
           code @ ''_div'' @ division @ ''_part'' @ part @ ''_ch'' @ chapter
             @ ''_'' @ title_clean @ ''.txt''
         else code @ ''_div'' @ division @ ''_part'' @ part @ ''_'' @ title_clean @ ''.txt'')"

definition path_join :: "string \<Rightarrow> string \<Rightarrow> string" where
  \<comment> \<open>\<open>os.path.join\<close> of two components\<close>
  "path_join a b =
     (if startswith b ''/'' then b
      else if a = [] \<or> last a = CHR ''/'' then a @ b
      else a @ ''/'' @ b)"

record config =
  cfg_code :: string
  cfg_code_name :: string
  cfg_division :: string
  cfg_parts :: "string list option"

record counters =
  successful_downloads :: nat
  total_items :: nat
  written :: "(string \<times> string) list"
    \<comment> \<open>the files written, path and content, in the order of writing\<close>

definition output_dir :: "config \<Rightarrow> string" where
  "output_dir cfg = path_join OUTPUT_BASE_DIR (cfg_code cfg @ ''_division_'' @ cfg_division cfg)"

definition scrape_item :: "world \<Rightarrow> config \<Rightarrow> string \<Rightarrow> string \<Rightarrow> string \<Rightarrow> counters \<Rightarrow> counters" where
  \<comment> \<open>what the three branches that scrape a page share: the item is counted, then the
      \<open>try\<close> block runs, and any exception in it is caught. The arguments are the URL of
      the page, its file name and the lines written before the content.\<close>
  "scrape_item w cfg url filename head st0 =
     (let st = st0\<lparr>total_items := total_items st0 + 1\<rparr>
      in case scrape_content w url of
           Inl e \<Rightarrow> st
         | Inr content \<Rightarrow>
             if content \<noteq> [] then
               (let filepath = path_join (output_dir cfg) filename
                in if write_file w filepath (head @ content)
                   then st\<lparr>successful_downloads := successful_downloads st + 1,
                           written := written st @ [(filepath, head @ content)]\<rparr>
                   else st)
             else st)"

definition rule_line :: string where
  "rule_line = replicate 80 CHR ''='' @ ''\<newline>\<newline>''"

definition scrape_article :: "world \<Rightarrow> config \<Rightarrow> counters \<Rightarrow> article_rec \<Rightarrow> counters" where
  "scrape_article w cfg st article =
     scrape_item w cfg (a_url article)
       (create_filename (a_code article) (a_division article) (a_part article)
          (a_chapter article) (a_article article) (a_title article))
       (upper (cfg_code_name cfg) @ '' - '' @ cfg_code cfg @ ''\<newline>''
        @ ''Division '' @ a_division article @ '', Part '' @ a_part article @ '', ''
        @ ''Chapter '' @ a_chapter article @ '', Article '' @ a_article article @ ''\<newline>''
        @ ''Title: '' @ a_title article @ ''\<newline>''
        @ ''URL: '' @ a_url article @ ''\<newline>'' @ rule_line)
       st"

definition process_chapter ::
  "world \<Rightarrow> config \<Rightarrow> chapter_rec \<Rightarrow> chapter_rec list \<times> counters
     \<Rightarrow> error + chapter_rec list \<times> counters" where
  \<comment> \<open>the body of the loop over the chapters of a part; the chapters seen, with their
      articles, are collected\<close>
  "process_chapter w cfg chapter acc =
     (case acc of (seen, st) \<Rightarrow>
        if c_has_articles chapter then
          (case get_articles_for_chapter w (c_url chapter) (cfg_code cfg) (cfg_division cfg)
                  (c_part chapter) (c_chapter chapter) of
             Inl e \<Rightarrow> Inl e
           | Inr arts \<Rightarrow>
               if arts \<noteq> [] then
                 Inr (seen @ [chapter\<lparr>c_articles := arts\<rparr>], foldl (scrape_article w cfg) st arts)
               else Inr (seen @ [chapter], st))
        else
          Inr (seen @ [chapter],
               scrape_item w cfg (c_url chapter)
                 (create_filename (c_code chapter) (c_division chapter) (c_part chapter)
                    (c_chapter chapter) '''' (c_title chapter))
                 (upper (cfg_code_name cfg) @ '' - '' @ cfg_code cfg @ ''\<newline>''
                  @ ''Division '' @ c_division chapter @ '', Part '' @ c_part chapter
                  @ '', Chapter '' @ c_chapter chapter @ ''\<newline>''
                  @ ''Title: '' @ c_title chapter @ ''\<newline>''
                  @ ''URL: '' @ c_url chapter @ ''\<newline>'' @ rule_line)
                 st))"

definition process_part ::
  "world \<Rightarrow> config \<Rightarrow> part_rec \<Rightarrow> part_rec list \<times> counters
     \<Rightarrow> error + part_rec list \<times> counters" where
  \<comment> \<open>the body of the loop over the parts\<close>
  "process_part w cfg part_info acc =
     (case acc of (seen, st) \<Rightarrow>
        if p_has_chapters part_info then
          (case get_chapters_for_part w (p_url part_info) (cfg_code cfg) (cfg_division cfg)
                  (p_part part_info) of
             Inl e \<Rightarrow> Inl e
           | Inr chapters \<Rightarrow>
               if chapters \<noteq> [] then
                 (case for_each (process_chapter w cfg) chapters ([], st) of
                    Inl e \<Rightarrow> Inl e
                  | Inr (chapters', st') \<Rightarrow>
                      Inr (seen @ [part_info\<lparr>p_chapters := chapters'\<rparr>], st'))
               else Inr (seen @ [part_info], st))
        else
          Inr (seen @ [part_info],
               scrape_item w cfg (p_url part_info)
                 (create_filename (p_code part_info) (p_division part_info) (p_part part_info)
                    '''' '''' (p_title part_info))
                 (upper (cfg_code_name cfg) @ '' - '' @ cfg_code cfg @ ''\<newline>''
                  @ ''Division '' @ p_division part_info @ '', Part '' @ p_part part_info
                  @ ''\<newline>''
                  @ ''Title: '' @ p_title part_info @ ''\<newline>''
                  @ ''URL: '' @ p_url part_info @ ''\<newline>'' @ rule_line)
                 st))"

record section_result =
  structure_file :: "part_rec list option"
    \<comment> \<open>the content of the structure file; \<open>None\<close> when the function returns before it\<close>
  counts :: counters

definition scrape_code_section :: "world \<Rightarrow> config \<Rightarrow> error + section_result" where
  \<comment> \<open>\<open>Inl\<close> is an exception that leaves the function; the pair returned is
      \<open>successful_downloads\<close> and \<open>total_items\<close> of \<open>counts\<close>\<close>
  "scrape_code_section w cfg =
     (case get_division_structure w (cfg_code cfg) (cfg_division cfg) (cfg_parts cfg) of
        Inl e \<Rightarrow> Inl e
      | Inr parts \<Rightarrow>
          if parts = [] then
            Inr \<lparr>structure_file = None,
                 counts = \<lparr>successful_downloads = 0, total_items = 0, written = []\<rparr>\<rparr>
          else
            (case for_each (process_part w cfg) parts
                    ([], \<lparr>successful_downloads = 0, total_items = 0, written = []\<rparr>) of
               Inl e \<Rightarrow> Inl e
             | Inr (parts', st) \<Rightarrow> Inr \<lparr>structure_file = Some parts', counts = st\<rparr>))"

section \<open>Worlds for the examples\<close>

fun split_from :: "char \<Rightarrow> string \<Rightarrow> string \<Rightarrow> string list" where
  \<comment> \<open>\<open>s.split(sep)\<close>; the second argument is the piece being read, reversed\<close>
  "split_from sep acc [] = [rev acc]"
| "split_from sep acc (c # cs) =
     (if c = sep then rev acc # split_from sep [] cs else split_from sep (c # acc) cs)"

definition simple_query_param :: "string \<Rightarrow> string \<Rightarrow> string" where
  \<comment> \<open>\<open>parse_qs(urlparse(href).query).get(k, [''])[0]\<close> for a link without fragment and
      without escapes: the first value of the key that is not blank\<close>
  "simple_query_param href k =
     (case List.find (\<lambda>item. startswith item (k @ ''='') \<and> length item > length k + 1)
             (split_from CHR ''&'' [] (drop 1 (dropWhile (\<lambda>c. c \<noteq> CHR ''?'') href))) of
        None \<Rightarrow> ''''
      | Some item \<Rightarrow> drop (length k + 1) item)"

definition simple_urljoin :: "string \<Rightarrow> string \<Rightarrow> string" where
  \<comment> \<open>\<open>urljoin\<close> against a base that is a scheme and a host, as the bases of both
      scrapers are\<close>
  "simple_urljoin base href =
     (if startswith href ''http'' then href
      else if startswith href ''/'' then base @ href
      else base @ ''/'' @ href)"

definition simple_url_path :: "string \<Rightarrow> string" where
  \<comment> \<open>\<open>urlparse(u).path\<close> for an \<open>https\<close> URL without query\<close>
  "simple_url_path u = dropWhile (\<lambda>c. c \<noteq> CHR ''/'') (drop 8 u)"

definition world_of :: "(string \<times> node) list \<Rightarrow> world" where
  \<comment> \<open>a site with these pages and no other; images download and files are written\<close>
  "world_of pages =
     \<lparr>http_get = (\<lambda>url. case map_of pages url of
                            None \<Rightarrow> Inl (FetchError url) | Some soup \<Rightarrow> Inr soup),
      urljoin = simple_urljoin,
      url_path = simple_url_path,
      query_param = simple_query_param,
      save_image = (\<lambda>img_url local_filename. True),
      write_file = (\<lambda>path content. True)\<rparr>"

definition toc_anchor :: "string \<Rightarrow> string \<Rightarrow> string \<Rightarrow> node" where
  \<comment> \<open>an entry of a listing page: the link, its indentation and its text\<close>
  "toc_anchor href indent text =
     Elem ''a'' [(''href'', href)] [Elem ''div'' [(''style'', indent)] [Text text]]"

definition toc_page :: "node list \<Rightarrow> node" where
  "toc_page entries = soup_of [Elem ''div'' [(''id'', ''expandedbranchcodesid'')] entries]"

section \<open>Notions the properties are stated with\<close>

subsection \<open>The frame of the subscript rewriting\<close>


fun free_of :: "string \<Rightarrow> node \<Rightarrow> bool" where
  \<comment> \<open>no element of that name at the node or below it\<close>
  "free_of tg (Text s) = True"
| "free_of tg (Elem t a cs) = (t \<noteq> tg \<and> list_all (free_of tg) cs)"

subsection \<open>The qualification rule in the words of the specification\<close>



subsection \<open>The lines after the heading\<close>

definition body_lines :: "node \<Rightarrow> string list" where
  \<comment> \<open>what the loop over the content blocks appends\<close>
  "body_lines doc_content =
     foldl (\<lambda>content_lines block. process_block block content_lines) []
       (find_all is_content_block doc_content)"

subsection \<open>What the accumulators of a run count\<close>










subsection \<open>The strict form of a section number\<close>

fun dotted_rest :: "string \<Rightarrow> bool" where
  \<comment> \<open>after a digit: more digits, or a dot and a digit, to the end of the string\<close>
  "dotted_rest [] = True"
| "dotted_rest (c # cs) =
     (if is_digit c then dotted_rest cs
      else if c = CHR ''.'' then
        (case cs of [] \<Rightarrow> False | d # ds \<Rightarrow> is_digit d \<and> dotted_rest ds)
      else False)"

definition dotted_digits :: "string \<Rightarrow> bool" where
  \<comment> \<open>digits, then any number of groups of a dot and digits, and nothing else\<close>
  "dotted_digits s = (case s of [] \<Rightarrow> False | d # ds \<Rightarrow> is_digit d \<and> dotted_rest ds)"

section \<open>Pages and sites of the examples\<close>

definition law_page :: "string \<Rightarrow> string \<Rightarrow> string \<Rightarrow> node" where
  \<comment> \<open>a page of the flat layout: one section with its anchor, a paragraph of text and a
      citation in italics\<close>
  "law_page anchor_text plain citation =
     soup_of
       [Elem ''div'' [(''id'', ''manylawsections'')]
          [Elem ''div'' [(''align'', ''left'')]
             [Elem ''h6'' [] [Elem ''a'' [(''href'', ''#'')] [Text anchor_text]],
              Elem ''p'' [(''style'', ''margin:0;display:inline;'')] [Text plain],
              Elem ''p'' [(''style'', ''margin:0 0 1em 0;'')] [Elem ''i'' [] [Text citation]]]]]"

definition division_url :: string where
  "division_url = ''https://leginfo.legislature.ca.gov/faces/codes_displayexpandedbranch.xhtml?tocCode=WAT&division=6.&title=&part=&chapter=&article=''"

definition part1_href :: string where
  "part1_href = ''/faces/codes_displayexpandedbranch.xhtml?tocCode=WAT&division=6.&title=&part=1.&chapter=&article=''"

definition part2_href :: string where
  "part2_href = ''/faces/codes_displayText.xhtml?lawCode=WAT&division=6.&title=&part=2.&chapter=&article=''"

definition two_parts_page :: node where
  \<comment> \<open>a division with a part that has chapters and a part that is a page of text\<close>
  "two_parts_page =
     toc_page [toc_anchor part1_href ''margin-left:20px;'' ''PART 1. GENERAL'',
               toc_anchor part2_href ''margin-left:20px;'' ''PART 2. OTHER'']"

definition part2_page :: node where
  "part2_page = law_page ''10000.'' ''10000. Water is conserved.'' ''(Added by Stats. 1999.)''"

definition water_config :: config where
  "water_config =
     \<lparr>cfg_code = ''WAT'', cfg_code_name = ''Water Code'', cfg_division = ''6'',
      cfg_parts = None\<rparr>"

definition broken_listing_world :: world where
  \<comment> \<open>the listing page of part 1 cannot be fetched\<close>
  "broken_listing_world =
     world_of [(division_url, two_parts_page), (BASE_URL @ part2_href, part2_page)]"

definition empty_listing_world :: world where
  \<comment> \<open>the listing page of part 1 has no chapters\<close>
  "empty_listing_world =
     world_of [(division_url, two_parts_page), (BASE_URL @ part1_href, toc_page []),
               (BASE_URL @ part2_href, part2_page)]"

definition chapter2_url :: string where
  "chapter2_url = ''https://leginfo.legislature.ca.gov/faces/codes_displayexpandedbranch.xhtml?tocCode=WAT&division=6.&title=&part=1.&chapter=2.&article=''"

definition reserved_article_page :: node where
  "reserved_article_page =
     toc_page
       [toc_anchor ''/faces/codes_displayText.xhtml?lawCode=WAT&division=6.&title=&part=1.&chapter=2.&article=3.''
          ''margin-left:40px;'' ''ARTICLE 3. (Reserved)'']"

definition listing_of :: "string \<Rightarrow> string \<Rightarrow> node" where
  \<comment> \<open>a listing page of the regulations site with one entry\<close>
  "listing_of href text =
     soup_of [Elem ''ul'' [(''class'', ''co_genericWhiteBox'')]
                [Elem ''li'' [] [Elem ''a'' [(''href'', href)] [Text text]]]]"

definition regs_chapter_url :: string where
  "regs_chapter_url = ''https://shared-govt.westlaw.com/calregs/chapter''"

definition regs_site :: "node \<Rightarrow> world" where
  \<comment> \<open>a chapter with one article, which has one section, whose page is the argument\<close>
  "regs_site section_page =
     world_of
       [(regs_chapter_url, listing_of ''/calregs/article1'' ''Article 1. Definitions''),
        (''https://shared-govt.westlaw.com/calregs/article1'',
         listing_of ''/calregs/section965'' ''965. Definitions''),
        (''https://shared-govt.westlaw.com/calregs/section965'', section_page)]"

definition figure_image :: node where
  "figure_image = Elem ''img'' [(''src'', ''/images/f1.png''), (''alt'', ''Water loss equation'')] []"


definition figure_block :: node where
  "figure_block = Elem ''div'' [(''class'', ''co_figure'')] [Text ''See '', figure_image, Text ''.'']"

definition figure_only_page :: node where
  \<comment> \<open>a section page with a formula image and without the container \<open>co_document\<close>\<close>
  "figure_only_page = soup_of [figure_block]"

definition titled_page :: node where
  \<comment> \<open>a section page with a title, a citation line and one section block\<close>
  "titled_page =
     soup_of
       [Elem ''div'' [(''id'', ''co_docHeaderTitle'')]
          [Elem ''h1'' [] [Text ''965. Definitions''],
           Elem ''ul'' [(''id'', ''co_docHeaderCitation'')] [Elem ''li'' [] [Text ''23 CCR 965'']]],
        Elem ''div'' [(''id'', ''co_document'')]
          [Elem ''div'' [(''class'', ''co_contentBlock co_section'')]
             [Elem ''div'' [(''class'', ''co_paragraph'')] [Text ''(a) Abstract.'']]]]"


definition titled_page_title_section :: node where
  \<comment> \<open>the title element of \<open>titled_page\<close>\<close>
  "titled_page_title_section =
     Elem ''div'' [(''id'', ''co_docHeaderTitle'')]
       [Elem ''h1'' [] [Text ''965. Definitions''],
        Elem ''ul'' [(''id'', ''co_docHeaderCitation'')] [Elem ''li'' [] [Text ''23 CCR 965'']]]"







section \<open>Properties\<close>

subsection \<open>Loops\<close>


lemma foldl_appends:
  assumes "\<And>x ls. f ls x = ls @ f [] x"
  shows "foldl f ls xs = ls @ foldl f [] xs"
proof (induction xs arbitrary: ls)
  case Nil show ?case by simp
next
  case (Cons x xs)
  have "foldl f (f ls x) xs = f ls x @ foldl f [] xs" by (rule Cons.IH)
  moreover have "foldl f (f [] x) xs = f [] x @ foldl f [] xs" by (rule Cons.IH)
  moreover have "f ls x = ls @ f [] x" by (rule assms)
  ultimately show ?case by simp
qed




subsection \<open>Failure of a listing page\<close>

lemma part_listing_failure_propagates:
  assumes "p_has_chapters part_info" and "http_get w (p_url part_info) = Inl e"
  shows "process_part w cfg part_info acc = Inl e"
  using assms by (cases acc) (simp add: process_part_def get_chapters_for_part_def)

lemma article_listing_failure_is_empty:
  \<comment> \<open>the regulations scraper, for comparison: a listing that cannot be fetched is a
      listing without entries\<close>
  assumes "http_get w article_url = Inl e"
  shows "extract_sections_from_article w article_url = []"
  using assms by (simp add: extract_sections_from_article_def get_page_content_def)

lemma leaf_failure_is_caught:
  \<comment> \<open>the branches that scrape a page do catch: the item is counted and the run goes on\<close>
  assumes "http_get w url = Inl e"
  shows "scrape_item w cfg url filename head st = st\<lparr>total_items := total_items st + 1\<rparr>"
  using assms by (simp add: scrape_item_def scrape_content_def Let_def)

lemma section_write_failure_propagates:
  \<comment> \<open>the regulations scraper does not catch a failure of the file write\<close>
  assumes "extract_section_content w (snd section) (fst section) = (content, images)"
    and "content \<noteq> []"
    and "filename = ''article_'' @ str_nat i @ ''_section_'' @ str_nat j @ ''_''
                    @ create_safe_filename (fst section) @ ''.txt''"
    and "\<not> write_file w filename (section_file_text i article section content)"
  shows "process_section w i article (j, section) (st, article_info)
           = Inl (PersistenceError filename)"
  using assms by (simp add: process_section_def Let_def)

lemma sibling_part_is_scraped_when_listing_answers:
  "map_sum id (\<lambda>r. (successful_downloads (counts r), total_items (counts r)))
     (scrape_code_section empty_listing_world water_config) = Inr (1, 1)"
  by code_simp

text \<open>
  C1. In the legal code scraper a fetch failure during the expansion of a node is not
  caught at the node: the division below has a part whose listing page cannot be fetched
  and a second part that is a page of text; the run ends with the fetch error, and
  nothing is returned for the second part.
\<close>

theorem expansion_failure_aborts_run:
  "map_sum id (map p_title) (get_division_structure broken_listing_world ''WAT'' ''6'' None)
     = Inr [''PART 1. GENERAL'', ''PART 2. OTHER'']
   \<and> scrape_code_section broken_listing_world water_config
     = Inl (FetchError (BASE_URL @ part1_href))"
  by code_simp

subsection \<open>The frame of normalization\<close>















subsection \<open>Formula images\<close>







subsection \<open>Section numbers of the flat layout\<close>

lemma newline_not_digit: "\<not> is_digit (CHR 0x0A)"
  by (simp add: is_digit_def)

lemma section_number_rest_iff:
  "section_number_rest s = (dotted_rest s \<or> (\<exists>t. s = t @ [CHR 0x0A] \<and> dotted_rest t))"
proof (induction s rule: section_number_rest.induct)
  case 1
  show ?case by simp
next
  case (2 c cs)
  show ?case
  proof (cases "is_digit c")
    case True
    then have "c \<noteq> CHR 0x0A" using newline_not_digit by auto
    have "(\<exists>t. c # cs = t @ [CHR 0x0A] \<and> dotted_rest t)
          = (\<exists>t'. cs = t' @ [CHR 0x0A] \<and> dotted_rest t')"
      using True \<open>c \<noteq> CHR 0x0A\<close> by (auto simp: Cons_eq_append_conv)
    then show ?thesis using True 2(1) by simp
  next
    case False
    show ?thesis
    proof (cases "c = CHR ''.''")
      case dot: True
      show ?thesis
      proof (cases cs)
        case Nil
        then show ?thesis using dot False by (auto simp: Cons_eq_append_conv)
      next
        case (Cons d ds)
        have "(\<exists>t. c # d # ds = t @ [CHR 0x0A] \<and> dotted_rest t)
              = (is_digit d \<and> (\<exists>t'. ds = t' @ [CHR 0x0A] \<and> dotted_rest t'))"
          using dot False newline_not_digit
          by (auto simp: Cons_eq_append_conv split: list.splits)
        then show ?thesis using dot False Cons 2(2) by auto
      qed
    next
      case other: False
      have "(\<exists>t. c # cs = t @ [CHR 0x0A] \<and> dotted_rest t) = (c = CHR 0x0A \<and> cs = [])"
        using False other by (auto simp: Cons_eq_append_conv)
      then show ?thesis using False other by simp
    qed
  qed
qed

lemma is_section_number_iff:
  "is_section_number s = (dotted_digits s \<or> (\<exists>t. s = t @ [CHR 0x0A] \<and> dotted_digits t))"
proof (cases s)
  case Nil
  then show ?thesis by (simp add: is_section_number_def dotted_digits_def)
next
  case (Cons d ds)
  have "(\<exists>t. d # ds = t @ [CHR 0x0A] \<and> dotted_digits t)
        = (is_digit d \<and> (\<exists>t'. ds = t' @ [CHR 0x0A] \<and> dotted_rest t'))"
  proof
    assume "\<exists>t. d # ds = t @ [CHR 0x0A] \<and> dotted_digits t"
    then obtain t where t: "d # ds = t @ [CHR 0x0A]" and dd: "dotted_digits t" by blast
    from dd obtain t' where t': "t = d # t'"
      using t by (cases t) (auto simp: dotted_digits_def)
    then show "is_digit d \<and> (\<exists>t'. ds = t' @ [CHR 0x0A] \<and> dotted_rest t')"
      using t dd by (auto simp: dotted_digits_def)
  next
    assume "is_digit d \<and> (\<exists>t'. ds = t' @ [CHR 0x0A] \<and> dotted_rest t')"
    then obtain t' where "is_digit d" and "ds = t' @ [CHR 0x0A]" and "dotted_rest t'" by blast
    then have "d # ds = (d # t') @ [CHR 0x0A] \<and> dotted_digits (d # t')"
      by (simp add: dotted_digits_def)
    then show "\<exists>t. d # ds = t @ [CHR 0x0A] \<and> dotted_digits t" by blast
  qed
  then show ?thesis
    using Cons by (auto simp: is_section_number_def dotted_digits_def section_number_rest_iff)
qed

lemma flat_section_scenario:
  "parse_legal_code_html
     (law_page ''1011.5.'' ''1011.5. Water is conserved.'' ''(Added by Stats. 1999.)'')
   = ''\<newline>1011.5.\<newline> Water is conserved.\<newline>\<newline>(Added by Stats. 1999.)''"
  by code_simp

text \<open>
  C4. The test of the section number accepts a string that is not of the form digits,
  dot, digits: the anchor text \<open>12\<close>, newline, dot loses its dot, and the pattern, whose
  \<open>$\<close> also holds before a newline that ends the string, accepts \<open>12\<close> with the newline
  as a section number. The number and its dot are emitted on two lines, and the number
  at the start of the paragraph is not stripped.
\<close>

theorem section_number_with_newline_accepted:
  "is_section_number (rstrip_char CHR ''.'' ''12\<newline>.'') \<and> \<not> dotted_digits ''12\<newline>''
   \<and> parse_legal_code_html
       (law_page ''12\<newline>.'' ''12. Water is conserved.'' ''(Added by Stats. 1999.)'')
     = ''\<newline>12\<newline>.\<newline> 12. Water is conserved.\<newline>\<newline>(Added by Stats. 1999.)''"
  by code_simp

subsection \<open>The heading block\<close>

lemma process_section_block_appends:
  "process_section_block b ls = ls @ process_section_block b []"
proof -
  let ?f = "\<lambda>ls para. (let para_text = get_text_strip para
                   in if para_text \<noteq> [] then
                        (if starts_with_subsection_id para_text then ls @ ['''', para_text]
                         else ls @ [para_text])
                      else ls)"
  have "foldl ?f ls xs = ls @ foldl ?f [] xs" for xs
    by (rule foldl_appends) (simp add: Let_def)
  then show ?thesis
    by (simp add: process_section_block_def Let_def)
qed

lemma process_block_appends: "process_block b ls = ls @ process_block b []"
  using process_section_block_appends[of "convert_subscripts_to_text b" ls]
  by (simp add: process_block_def Let_def process_subsection_block_def
        process_paragraph_block_def)

text \<open>
  C5, as the code has it. For a page with the content container, a title element and a
  citation list, the content starts with the title text, an underline of \<open>=\<close> as long as
  the title, a blank line, then each citation item that is not empty on a line of its
  own, then a blank separator line; the lines of the content blocks follow.
\<close>

theorem heading_block:
  assumes "find_first is_co_document soup = Some doc_content"
    and "find_first (\<lambda>n. is_tag ''div'' n \<and> has_attr ''id'' ''co_docHeaderTitle'' n) soup
           = Some title_section"
    and "find_first (is_tag ''h1'') title_section = Some title_h1"
    and "find_first (\<lambda>n. is_tag ''ul'' n \<and> has_attr ''id'' ''co_docHeaderCitation'' n)
           title_section = Some citation_ul"
  shows "content_of soup =
           join ''\<newline>''
             ([get_text_strip title_h1,
               replicate (length (get_text_strip title_h1)) CHR ''='',
               '''']
              @ filter (\<lambda>c. c \<noteq> []) (map get_text_strip (find_all (is_tag ''li'') citation_ul))
              @ ['''']
              @ body_lines doc_content)"
proof -
  have lines: "foldl (\<lambda>content_lines block. process_block block content_lines)
                 (heading_lines soup) (find_all is_content_block doc_content)
               = heading_lines soup @ body_lines doc_content"
    unfolding body_lines_def by (rule foldl_appends) (rule process_block_appends)
  have heading: "heading_lines soup =
      [get_text_strip title_h1, replicate (length (get_text_strip title_h1)) CHR ''='', '''']
      @ filter (\<lambda>c. c \<noteq> []) (map get_text_strip (find_all (is_tag ''li'') citation_ul))
      @ ['''']"
    using assms(2-4) by (simp add: heading_lines_def Let_def)
  have "content_of soup = join ''\<newline>'' (heading_lines soup @ body_lines doc_content)"
    using assms(1) lines by (simp add: content_of_def)
  then show ?thesis
    by (simp only: heading append_assoc)
qed

lemma titled_page_document:
  "find_first is_co_document titled_page
     = Some (Elem ''div'' [(''id'', ''co_document'')]
               [Elem ''div'' [(''class'', ''co_contentBlock co_section'')]
                  [Elem ''div'' [(''class'', ''co_paragraph'')] [Text ''(a) Abstract.'']]])"
  by code_simp

lemma titled_page_title:
  "find_first (\<lambda>n. is_tag ''div'' n \<and> has_attr ''id'' ''co_docHeaderTitle'' n) titled_page
     = Some titled_page_title_section"
  by code_simp

lemma titled_page_h1:
  "find_first (is_tag ''h1'') titled_page_title_section
     = Some (Elem ''h1'' [] [Text ''965. Definitions''])"
  by code_simp

lemma titled_page_citation:
  "find_first (\<lambda>n. is_tag ''ul'' n \<and> has_attr ''id'' ''co_docHeaderCitation'' n)
       titled_page_title_section
     = Some (Elem ''ul'' [(''id'', ''co_docHeaderCitation'')] [Elem ''li'' [] [Text ''23 CCR 965'']])"
  by code_simp

lemma titled_page_lines:
  "get_text_strip (Elem ''h1'' [] [Text ''965. Definitions'']) = ''965. Definitions''
   \<and> filter (\<lambda>c. c \<noteq> [])
       (map get_text_strip
          (find_all (is_tag ''li'')
             (Elem ''ul'' [(''id'', ''co_docHeaderCitation'')] [Elem ''li'' [] [Text ''23 CCR 965'']])))
     = [''23 CCR 965'']
   \<and> body_lines (Elem ''div'' [(''id'', ''co_document'')]
               [Elem ''div'' [(''class'', ''co_contentBlock co_section'')]
                  [Elem ''div'' [(''class'', ''co_paragraph'')] [Text ''(a) Abstract.'']]])
     = ['''', ''(a) Abstract.'', '''']"
  by code_simp

theorem heading_block_witness:
  "content_of titled_page =
     ''965. Definitions\<newline>================\<newline>\<newline>23 CCR 965\<newline>\<newline>\<newline>(a) Abstract.\<newline>''"
  using heading_block[OF titled_page_document titled_page_title titled_page_h1
          titled_page_citation]
  by (simp add: titled_page_lines)

text \<open>
  C5, as stated, fails: on the page with the title \<open>965. Definitions\<close> and the citation
  \<open>23 CCR 965\<close> the underline is not followed by the citation but by a blank line.
\<close>

theorem heading_has_blank_line_before_citation:
  "take 4 (heading_lines titled_page)
     \<noteq> [''965. Definitions'', ''================'', ''23 CCR 965'', '''']
   \<and> heading_lines titled_page
     = [''965. Definitions'', ''================'', '''', ''23 CCR 965'', '''']"
  by code_simp

subsection \<open>Reserved entries\<close>

lemma reserved_part_rejected:
  assumes "find_first (style_has ''margin-left:20px'') anchor = Some part_div"
    and "contains ''(Reserved)'' (get_text_strip part_div)"
  shows "part_of_anchor w code division specific_parts anchor = None"
  using assms by (simp add: part_of_anchor_def Let_def)

lemma reserved_chapter_rejected:
  assumes "find_first (style_has ''margin-left:30px'') anchor = Some chapter_div"
    and "contains ''(Reserved)'' (get_text_strip chapter_div)"
  shows "chapter_of_anchor w code division anchor = None"
  using assms by (simp add: chapter_of_anchor_def Let_def)

text \<open>
  C6. At the level of articles an entry flagged as reserved is not rejected: the listing
  of a chapter whose only entry is \<open>ARTICLE 3. (Reserved)\<close> yields that entry as an
  article. (Parts and chapters flagged so are rejected.)
\<close>

theorem reserved_article_is_discovered:
  "map_sum id (map a_title)
     (get_articles_for_chapter (world_of [(chapter2_url, reserved_article_page)])
        chapter2_url ''WAT'' ''6'' ''1.'' ''2.'')
   = Inr [''ARTICLE 3. (Reserved)'']"
  by code_simp

subsection \<open>The placeholder of an image\<close>

text \<open>
  C8, as the code has it. An image that qualifies and whose download succeeds is replaced,
  at its place among the children of its parent, by a text node that holds a newline, the
  placeholder \<open>[IMAGE: local filename - descriptive text]\<close> and a newline; the descriptive
  text is the alt text of the image, or \<open>Mathematical formula\<close> when the image has no alt
  attribute. The siblings are processed on their own.
\<close>

theorem image_placeholder:
  assumes "is_tag ''img'' img" and "has_src img" and "is_formula_image img parent"
    and "download_image w (resolve_src w (attr_or img ''src'' '''')) section_title
           = Some local_filename"
    and "attr img ''alt'' \<noteq> Some ''''"
    and "parent = Elem p a (before @ img # after)" and "p \<noteq> ''img''"
  shows "subst_images w section_title grandparent parent =
           Elem p a (map (subst_images w section_title parent) before
                     @ Text (''\<newline>[IMAGE: '' @ local_filename @ '' - ''
                             @ (case attr img ''alt'' of
                                  None \<Rightarrow> ''Mathematical formula'' | Some alt \<Rightarrow> alt)
                             @ '']\<newline>'')
                     # map (subst_images w section_title parent) after)"
proof -
  have img: "subst_images w section_title parent img = Text (placeholder local_filename img)"
    using assms(1-4) by (cases img) (auto simp: process_image_def Let_def is_tag_def)
  have par: "process_image w section_title parent grandparent = Untouched"
    using assms(6,7) by (simp add: process_image_def is_tag_def)
  have ph: "placeholder local_filename img =
      ''\<newline>[IMAGE: '' @ local_filename @ '' - ''
        @ (case attr img ''alt'' of None \<Rightarrow> ''Mathematical formula'' | Some alt \<Rightarrow> alt)
        @ '']\<newline>''"
    by (simp add: placeholder_def attr_or_def)
  show ?thesis
    using img par ph assms(6) by simp
qed

lemma figure_image_download:
  "download_image (regs_site figure_only_page)
     (resolve_src (regs_site figure_only_page) (attr_or figure_image ''src'' ''''))
     ''965. Definitions'' = Some ''965__Definitions_f1.png''"
  by code_simp

lemma figure_image_alt: "attr figure_image ''alt'' = Some ''Water loss equation''"
  by code_simp

theorem image_placeholder_witness:
  "is_tag ''img'' figure_image \<and> has_src figure_image
   \<and> is_formula_image figure_image figure_block
   \<and> download_image (regs_site figure_only_page)
       (resolve_src (regs_site figure_only_page) (attr_or figure_image ''src'' ''''))
       ''965. Definitions'' = Some ''965__Definitions_f1.png''
   \<and> subst_images (regs_site figure_only_page) ''965. Definitions'' figure_only_page
       figure_block
     = Elem ''div'' [(''class'', ''co_figure'')]
         [Text ''See '',
          Text ''\<newline>[IMAGE: 965__Definitions_f1.png - Water loss equation]\<newline>'',
          Text ''.'']"
proof -
  have tag: "is_tag ''img'' figure_image" by code_simp
  have src: "has_src figure_image" by code_simp
  have qual: "is_formula_image figure_image figure_block" by code_simp
  have alt: "attr figure_image ''alt'' \<noteq> Some ''''" by code_simp
  have block: "figure_block = Elem ''div'' [(''class'', ''co_figure'')]
                                ([Text ''See ''] @ figure_image # [Text ''.''])"
    by code_simp
  have name: "''div'' \<noteq> ''img''" by simp
  show ?thesis
    using image_placeholder[OF tag src qual figure_image_download alt block name,
            of figure_only_page]
          tag src qual figure_image_download figure_image_alt
    by simp
qed

text \<open>
  C8, as stated, fails: the text node that replaces the image of the page below is not
  the placeholder alone; it starts and ends with a newline.
\<close>

theorem placeholder_node_has_newlines:
  "soup_after_images (regs_site figure_only_page) figure_only_page ''965. Definitions''
     \<noteq> soup_of [Elem ''div'' [(''class'', ''co_figure'')]
                  [Text ''See '',
                   Text ''[IMAGE: 965__Definitions_f1.png - Water loss equation]'',
                   Text ''.'']]
   \<and> soup_after_images (regs_site figure_only_page) figure_only_page ''965. Definitions''
     = soup_of [Elem ''div'' [(''class'', ''co_figure'')]
                  [Text ''See '',
                   Text ''\<newline>[IMAGE: 965__Definitions_f1.png - Water loss equation]\<newline>'',
                   Text ''.'']]"
  by code_simp

subsection \<open>The accumulators at the end of a run\<close>






















subsection \<open>Images of a page without content\<close>






subsection \<open>Subscript rewriting\<close>

lemma rewrite_runs_free: "free_of tg (rewrite_runs tg mark n)"
  by (induction n) (auto simp: list_all_iff)

lemma rewrite_runs_keeps_free:
  "free_of tg' n \<Longrightarrow> free_of tg' (rewrite_runs tg mark n)"
  by (induction n) (auto simp: list_all_iff)

lemma rewrite_runs_id: "free_of tg n \<Longrightarrow> rewrite_runs tg mark n = n"
  by (induction n) (auto simp: list_all_iff map_idI)

lemma replace_runs_twice:
  "replace_runs tg mark (replace_runs tg mark n) = replace_runs tg mark n"
  by (cases n) (simp_all add: rewrite_runs_id rewrite_runs_free)

lemma replace_runs_stable:
  "replace_runs ''sub'' ''_'' (replace_runs ''sup'' ''^'' (replace_runs ''sub'' ''_'' n))
     = replace_runs ''sup'' ''^'' (replace_runs ''sub'' ''_'' n)"
  by (cases n)
     (simp_all add: rewrite_runs_id rewrite_runs_free rewrite_runs_keeps_free)

lemma conversion_inside_a_block:
  \<comment> \<open>what the conversion of an enclosing block leaves of an element in it, which is not
      itself a run, is the conversion of that element\<close>
  assumes "t \<noteq> ''sub''" and "t \<noteq> ''sup''"
  shows "rewrite_runs ''sup'' ''^'' (rewrite_runs ''sub'' ''_'' (Elem t a cs))
           = convert_subscripts_to_text (Elem t a cs)"
  using assms by (simp add: convert_subscripts_to_text_def)

text \<open>
  C7. Subscript/superscript rewriting is idempotent on its output: rewriting an element
  whose runs have already been rewritten (into text nodes \<open>_x\<close> and \<open>^y\<close>) changes
  nothing.
\<close>

theorem convert_subscripts_idempotent:
  "convert_subscripts_to_text (convert_subscripts_to_text element)
     = convert_subscripts_to_text element"
  unfolding convert_subscripts_to_text_def
  by (simp add: replace_runs_stable replace_runs_twice)

end
